theory Spec2Isabelle
  imports Main
begin

section \<open>Values, requests and the agent\<close>

text \<open>
  The wrappers of \<^verbatim>\<open>api/universe/regions\<close> and \<^verbatim>\<open>api/universe/stations.ts\<close> build
  object literals, hand them to \<^verbatim>\<open>agent.request\<close> and pass on what comes back. Values
  are JavaScript values; an object is the list of its properties. Ids and page numbers
  are integers.
\<close>

datatype json =
    JUndefined
  | JNull
  | JBool bool
  | JNum int
  | JStr string
  | JArr "json list"
  | JObj "(string \<times> json) list"

datatype route =
    get_universe_regions
  | get_universe_regions_region_id
  | get_markets_region_id_orders
  | get_markets_region_id_types
  | get_markets_region_id_history
  | get_universe_stations_station_id

datatype request = Request route json

text \<open>
  A promise rejects with whatever the agent reports, or with the \<^verbatim>\<open>TypeError\<close> that a
  \<^verbatim>\<open>then\<close> callback throws when it reads a property of \<^verbatim>\<open>undefined\<close> or \<^verbatim>\<open>null\<close>.
\<close>

datatype error = AgentError json | TypeError

text \<open>
  The agent is the external collaborator \<^verbatim>\<open>request(route, params) -> Promise<Response>\<close>.
  Its answer may depend on everything requested before, so it is a function of the
  requests issued so far and of the request at hand. An asynchronous operation runs from
  the requests issued so far, settles (\<open>Inl\<close>: rejected, \<open>Inr\<close>: resolved) and leaves
  the requests issued by then.
\<close>

type_synonym agent = "request list \<Rightarrow> request \<Rightarrow> error + json"

type_synonym 'a promise = "request list \<Rightarrow> (error + 'a) \<times> request list"

definition agent_request :: "agent \<Rightarrow> route \<Rightarrow> json \<Rightarrow> json promise" where
  "agent_request ag rt ps log = (ag log (Request rt ps), log @ [Request rt ps])"

text \<open>\<^verbatim>\<open>Promise.resolve(v)\<close>.\<close>

definition resolve :: "'a \<Rightarrow> 'a promise" where
  "resolve v log = (Inr v, log)"


text \<open>\<^verbatim>\<open>p.then(f)\<close> for a callback that returns a plain value or throws.\<close>

definition then_value :: "'a promise \<Rightarrow> ('a \<Rightarrow> error + 'b) \<Rightarrow> 'b promise" where
  "then_value p f log =
     (case p log of
        (Inl e, log') \<Rightarrow> (Inl e, log')
      | (Inr v, log') \<Rightarrow> (f v, log'))"

text \<open>\<^verbatim>\<open>p.then(f)\<close> for a callback that returns a promise.\<close>

definition then_promise :: "'a promise \<Rightarrow> ('a \<Rightarrow> 'b promise) \<Rightarrow> 'b promise" where
  "then_promise p f log =
     (case p log of
        (Inl e, log') \<Rightarrow> (Inl e, log')
      | (Inr v, log') \<Rightarrow> f v log')"

text \<open>
  Property access \<^verbatim>\<open>v.k\<close> for the properties read here (\<^verbatim>\<open>name\<close>, \<^verbatim>\<open>constellations\<close>,
  \<^verbatim>\<open>result\<close>): the property's value on an object that has it, \<^verbatim>\<open>undefined\<close> on an
  object without it and on a boolean, number, string or array, a thrown \<^verbatim>\<open>TypeError\<close>
  on \<^verbatim>\<open>undefined\<close> and \<^verbatim>\<open>null\<close>.
\<close>

fun property :: "json \<Rightarrow> string \<Rightarrow> json" where
  "property (JObj fs) k = (case map_of fs k of None \<Rightarrow> JUndefined | Some v \<Rightarrow> v)"
| "property _ k = JUndefined"

fun get_prop :: "string \<Rightarrow> json \<Rightarrow> error + json" where
  "get_prop k JUndefined = Inl TypeError"
| "get_prop k JNull = Inl TypeError"
| "get_prop k v = Inr (property v k)"

section \<open>Stations\<close>

text \<open>
  The enumerations \<^verbatim>\<open>esi.universe.NameCategory\<close> and \<^verbatim>\<open>esi.SearchCategory\<close> are declared
  in the generated \<^verbatim>\<open>esi\<close> module; these are the members the two files name.
\<close>

datatype NameCategory = NameCategory_CONSTELLATION | NameCategory_REGION | NameCategory_STATION

datatype SearchCategory = SearchCategory_REGION | SearchCategory_STATION

record StationImpl =
  station_agent :: agent
  station_id :: int

definition StationImpl_info :: "StationImpl \<Rightarrow> json promise" where
  "StationImpl_info this =
     agent_request (station_agent this) get_universe_stations_station_id
       (JObj [(''path'', JObj [(''station_id'', JNum (station_id this))])])"

definition StationImpl_id :: "StationImpl \<Rightarrow> int promise" where
  "StationImpl_id this = resolve (station_id this)"

text \<open>
  \<^verbatim>\<open>makeStations\<close> returns a function object with two properties. The helpers
  \<^verbatim>\<open>makeDefaultSearch\<close> (internal/search) and \<^verbatim>\<open>getNames\<close> (internal/names) are imported
  from modules outside these files, so they are parameters here.
\<close>

record ('s, 'n) Stations =
  stations_call :: "int \<Rightarrow> StationImpl"
  stations_search :: 's
  stations_names :: "int list \<Rightarrow> 'n promise"

definition makeStations ::
  "(agent \<Rightarrow> SearchCategory \<Rightarrow> 's) \<Rightarrow> (agent \<Rightarrow> NameCategory \<Rightarrow> int list \<Rightarrow> 'n promise) \<Rightarrow>
     agent \<Rightarrow> ('s, 'n) Stations" where
  "makeStations makeDefaultSearch getNames ag =
     \<lparr> stations_call = (\<lambda>id'. \<lparr> station_agent = ag, station_id = id' \<rparr>),
       stations_search = makeDefaultSearch ag SearchCategory_STATION,
       stations_names = (\<lambda>ids. getNames ag NameCategory_STATION ids) \<rparr>"

section \<open>Regions\<close>

definition getDetails :: "agent \<Rightarrow> int \<Rightarrow> json promise" where
  "getDetails ag id' =
     agent_request ag get_universe_regions_region_id
       (JObj [(''path'', JObj [(''region_id'', JNum id')])])"

text \<open>
  A \<^verbatim>\<open>Region\<close> holds its agent, its id (\<^verbatim>\<open>id_\<close>, the field of \<^verbatim>\<open>SimpleResource\<close>) and
  the two cached sub-wrappers (\<^verbatim>\<open>constellations_\<close> and \<^verbatim>\<open>market_\<close>), each a reference to
  an object once it has been created and \<^verbatim>\<open>undefined\<close> (\<open>None\<close>) before.
\<close>

record Region =
  region_agent :: agent
  region_id :: int
  cached_constellations :: "nat option"
  cached_market :: "nat option"

definition Region_details :: "Region \<Rightarrow> json promise" where
  "Region_details this = getDetails (region_agent this) (region_id this)"

definition Region_names :: "Region \<Rightarrow> json promise" where
  "Region_names this = then_value (Region_details this) (\<lambda>result. get_prop ''name'' result)"

subsection \<open>The region's market\<close>

text \<open>
  Modelled from the spec: \<^verbatim>\<open>makePageBasedStreamer\<close> of \<^verbatim>\<open>internal/resource-api\<close>, which
  is not among the sources. Pages are fetched one after the other from page 1, each
  page's \<^verbatim>\<open>result\<close> is appended to what came before, and fetching stops with the first
  page that is empty or shorter than the maximum page size; there is no reordering and
  no deduplication. A rejected fetch rejects the whole. An agent that never returns an
  empty or short page keeps the loop running for ever: the result is then \<open>None\<close>.
  A \<^verbatim>\<open>result\<close> that is no array lies outside the typed interface and counts as a
  \<^verbatim>\<open>TypeError\<close>.
\<close>

type_synonym 'a streamer = "request list \<Rightarrow> ((error + 'a list) \<times> request list) option"

fun page_items :: "json \<Rightarrow> json list option" where
  "page_items (JArr xs) = Some xs"
| "page_items _ = None"

definition short_page :: "nat option \<Rightarrow> json list \<Rightarrow> bool" where
  "short_page maxPageSize xs =
     (case maxPageSize of None \<Rightarrow> False | Some m \<Rightarrow> length xs < m)"

partial_function (option) fetch_pages ::
  "(nat \<Rightarrow> json promise) \<Rightarrow> nat option \<Rightarrow> nat \<Rightarrow> json list \<Rightarrow> json streamer" where
  "fetch_pages fetcher maxPageSize page acc log =
     (case fetcher page log of
        (Inl e, log') \<Rightarrow> Some (Inl e, log')
      | (Inr pageResults, log') \<Rightarrow>
          (case page_items (property pageResults ''result'') of
             None \<Rightarrow> Some (Inl TypeError, log')
           | Some xs \<Rightarrow>
               if xs = [] \<or> short_page maxPageSize xs
               then Some (Inr (acc @ xs), log')
               else fetch_pages fetcher maxPageSize (Suc page) (acc @ xs) log'))"

definition makePageBasedStreamer :: "(nat \<Rightarrow> json promise) \<Rightarrow> nat option \<Rightarrow> json streamer" where
  "makePageBasedStreamer fetcher maxPageSize = fetch_pages fetcher maxPageSize 1 []"

text \<open>
  \<^verbatim>\<open>RegionMarket\<close>: the agent, the region id and the two streamers (\<^verbatim>\<open>orders_\<close> and
  \<^verbatim>\<open>types_\<close>), each created by the first call that needs it.
\<close>

record RegionMarket =
  market_agent :: agent
  market_id :: int
  cached_orders :: "json streamer option"
  cached_types :: "json streamer option"

definition RegionMarket_new :: "agent \<Rightarrow> int \<Rightarrow> RegionMarket" where
  "RegionMarket_new ag id' =
     \<lparr> market_agent = ag, market_id = id', cached_orders = None, cached_types = None \<rparr>"

definition orders_fetcher :: "RegionMarket \<Rightarrow> nat \<Rightarrow> json promise" where
  "orders_fetcher this page =
     then_value
       (agent_request (market_agent this) get_markets_region_id_orders
          (JObj [(''path'', JObj [(''region_id'', JNum (market_id this))]),
                 (''query'', JObj [(''page'', JNum (int page)), (''order_type'', JStr ''all'')])]))
       (\<lambda>result. Inr (JObj [(''result'', result), (''maxPages'', JUndefined)]))"

text \<open>
  \<^verbatim>\<open>orders()\<close> creates the streamer when there is none, keeps it in \<^verbatim>\<open>this.orders_\<close> and
  calls it: the result is the streamer's run and the market as the call leaves it.
\<close>

definition RegionMarket_orders :: "RegionMarket \<Rightarrow> json streamer \<times> RegionMarket" where
  "RegionMarket_orders this =
     (case cached_orders this of
        None \<Rightarrow>
          (let s = makePageBasedStreamer (orders_fetcher this) (Some 10000)
           in (s, this\<lparr>cached_orders := Some s\<rparr>))
      | Some s \<Rightarrow> (s, this))"

definition RegionMarket_buyOrdersFor :: "RegionMarket \<Rightarrow> int \<Rightarrow> json promise" where
  "RegionMarket_buyOrdersFor this type =
     agent_request (market_agent this) get_markets_region_id_orders
       (JObj [(''path'', JObj [(''region_id'', JNum (market_id this))]),
              (''query'', JObj [(''type_id'', JNum type), (''order_type'', JStr ''buy'')])])"

definition RegionMarket_sellOrdersFor :: "RegionMarket \<Rightarrow> int \<Rightarrow> json promise" where
  "RegionMarket_sellOrdersFor this type =
     agent_request (market_agent this) get_markets_region_id_orders
       (JObj [(''path'', JObj [(''region_id'', JNum (market_id this))]),
              (''query'', JObj [(''type_id'', JNum type), (''order_type'', JStr ''sell'')])])"

definition RegionMarket_ordersFor :: "RegionMarket \<Rightarrow> int \<Rightarrow> json promise" where
  "RegionMarket_ordersFor this type =
     agent_request (market_agent this) get_markets_region_id_orders
       (JObj [(''path'', JObj [(''region_id'', JNum (market_id this))]),
              (''query'', JObj [(''type_id'', JNum type), (''order_type'', JStr ''all'')])])"

definition types_fetcher :: "RegionMarket \<Rightarrow> nat \<Rightarrow> json promise" where
  "types_fetcher this page =
     then_value
       (agent_request (market_agent this) get_markets_region_id_types
          (JObj [(''path'', JObj [(''region_id'', JNum (market_id this))]),
                 (''query'', JObj [(''page'', JNum (int page))])]))
       (\<lambda>result. Inr (JObj [(''result'', result), (''maxPages'', JUndefined)]))"


definition RegionMarket_history :: "RegionMarket \<Rightarrow> int \<Rightarrow> json promise" where
  "RegionMarket_history this type =
     agent_request (market_agent this) get_markets_region_id_history
       (JObj [(''path'', JObj [(''region_id'', JNum (market_id this))]),
              (''query'', JObj [(''type_id'', JNum type)])])"

subsection \<open>Objects and the cached accessors\<close>

text \<open>
  Objects that the claims tell apart by identity live in a store and are referred to by
  their position in it: the arrays and sets a caller passes, and the sub-wrappers a
  \<^verbatim>\<open>Region\<close> creates. \<^verbatim>\<open>new\<close> appends, so a reference once given out stays valid.
  The world is that store together with the requests issued so far.
\<close>

datatype obj =
    Array_obj "int list"
  | Set_obj "int list"
  | MappedConstellations_obj agent "json promise"
  | RegionMarket_obj RegionMarket

record world =
  requests :: "request list"
  objects :: "obj list"

definition new :: "obj \<Rightarrow> world \<Rightarrow> nat \<times> world" where
  "new ob w = (length (objects w), w\<lparr>objects := objects w @ [ob]\<rparr>)"

definition deref :: "world \<Rightarrow> nat \<Rightarrow> obj option" where
  "deref w a = (if a < length (objects w) then Some (objects w ! a) else None)"

definition Region_new :: "agent \<Rightarrow> int \<Rightarrow> Region" where
  "Region_new ag id' =
     \<lparr> region_agent = ag, region_id = id', cached_constellations = None, cached_market = None \<rparr>"

text \<open>
  The getter \<^verbatim>\<open>constellations\<close>. The class \<^verbatim>\<open>MappedConstellations\<close> is declared in
  \<^verbatim>\<open>./constellations\<close>; like \<^verbatim>\<open>MappedRegions\<close> below it keeps the agent and the provider
  of its ids, here the closure \<^verbatim>\<open>() => this.details().then(r => r.constellations)\<close>, which
  nothing calls at construction.
\<close>

definition Region_constellations :: "Region \<Rightarrow> world \<Rightarrow> nat \<times> Region \<times> world" where
  "Region_constellations this w =
     (case cached_constellations this of
        None \<Rightarrow>
          (case new (MappedConstellations_obj (region_agent this)
                       (then_value (Region_details this) (\<lambda>r. get_prop ''constellations'' r))) w of
             (ref, w') \<Rightarrow> (ref, this\<lparr>cached_constellations := Some ref\<rparr>, w'))
      | Some ref \<Rightarrow> (ref, this, w))"

definition Region_market :: "Region \<Rightarrow> world \<Rightarrow> nat \<times> Region \<times> world" where
  "Region_market this w =
     (case cached_market this of
        None \<Rightarrow>
          (case new (RegionMarket_obj (RegionMarket_new (region_agent this) (region_id this))) w of
             (ref, w') \<Rightarrow> (ref, this\<lparr>cached_market := Some ref\<rparr>, w'))
      | Some ref \<Rightarrow> (ref, this, w))"

text \<open>A use of the two accessors, in any order and number.\<close>

datatype accessor = Constellations | Market

fun access :: "accessor \<Rightarrow> Region \<Rightarrow> world \<Rightarrow> nat \<times> Region \<times> world" where
  "access Constellations this w = Region_constellations this w"
| "access Market this w = Region_market this w"

fun access_all :: "accessor list \<Rightarrow> Region \<Rightarrow> world \<Rightarrow> Region \<times> world" where
  "access_all [] this w = (this, w)"
| "access_all (a # as) this w =
     (case access a this w of (ref, this', w') \<Rightarrow> access_all as this' w')"

subsection \<open>Mapped regions and the functor\<close>

text \<open>
  What \<^verbatim>\<open>new MappedRegions(agent, ids)\<close> is given as \<^verbatim>\<open>ids\<close>: an array or a set, by
  reference, or a provider of ids.
\<close>

datatype ids_arg = Ids_object nat | Ids_provider "int list promise"

text \<open>
  Modelled from the spec: the base class \<^verbatim>\<open>SimpleMappedResource\<close> of
  \<^verbatim>\<open>internal/resource-api\<close>, which is not among the sources. A mapped wrapper is the
  interface accessed for many ids, so besides its agent it holds the provider of those
  ids, and \<^verbatim>\<open>arrayIDs\<close> resolves to them as an array. How the constructor turns its
  argument into that provider is not modelled.
\<close>

record MappedRegions =
  mapped_agent :: agent
  mapped_ids :: "int list promise"

definition arrayIDs :: "MappedRegions \<Rightarrow> int list promise" where
  "arrayIDs this = mapped_ids this"


definition MappedRegions_names ::
  "(agent \<Rightarrow> NameCategory \<Rightarrow> int list \<Rightarrow> 'n promise) \<Rightarrow> MappedRegions \<Rightarrow> 'n promise" where
  "MappedRegions_names getNames this =
     then_promise (arrayIDs this)
       (\<lambda>ids. getNames (mapped_agent this) NameCategory_CONSTELLATION ids)"

text \<open>
  \<^verbatim>\<open>IteratedRegions\<close>: its ids are streamed from the answer to
  \<^verbatim>\<open>agent.request('get_universe_regions', undefined)\<close>, and \<^verbatim>\<open>names()\<close> hands them to
  \<^verbatim>\<open>getIteratedNames\<close> (internal/names, a parameter) with the region category.
\<close>

definition IteratedRegions_ids :: "agent \<Rightarrow> json promise" where
  "IteratedRegions_ids ag = agent_request ag get_universe_regions JUndefined"

definition IteratedRegions_names ::
  "(agent \<Rightarrow> NameCategory \<Rightarrow> json promise \<Rightarrow> 'n) \<Rightarrow> agent \<Rightarrow> 'n" where
  "IteratedRegions_names getIteratedNames ag =
     getIteratedNames ag NameCategory_REGION (IteratedRegions_ids ag)"


text \<open>
  The functor of \<^verbatim>\<open>makeRegions\<close>. Its argument is \<^verbatim>\<open>undefined\<close>, a number, a string or
  an object (an array or a set, by reference); \<^verbatim>\<open>strict\<close> defaults to \<^verbatim>\<open>false\<close>. The
  result is the \<^verbatim>\<open>new\<close> expression it evaluates, with its arguments.
\<close>

datatype regions_arg = Arg_undefined | Arg_number int | Arg_string string | Arg_object nat

datatype construction =
    new_IteratedRegions agent
  | new_Region agent int
  | new_MappedRegions agent ids_arg

definition makeRegions ::
  "(agent \<Rightarrow> SearchCategory \<Rightarrow> string \<Rightarrow> bool \<Rightarrow> int list promise) \<Rightarrow> agent \<Rightarrow>
     regions_arg \<Rightarrow> bool option \<Rightarrow> construction" where
  "makeRegions makeDefaultSearch ag ids strict_arg =
     (let regionSearch = makeDefaultSearch ag SearchCategory_REGION;
          strict = (case strict_arg of None \<Rightarrow> False | Some b \<Rightarrow> b)
      in case ids of
           Arg_undefined \<Rightarrow> new_IteratedRegions ag
         | Arg_number n \<Rightarrow> new_Region ag n
         | Arg_string q \<Rightarrow> new_MappedRegions ag (Ids_provider (regionSearch q strict))
         | Arg_object a \<Rightarrow> new_MappedRegions ag (Ids_object a))"

subsection \<open>Method calls that make one request\<close>

text \<open>
  The methods of the two files whose body is one call of \<^verbatim>\<open>agent.request\<close>
  (\<^verbatim>\<open>Region.names\<close> adds a \<^verbatim>\<open>then\<close>), as data, so that a statement can speak of each of
  them: the call, the agent it goes to, and the request its body writes down.
\<close>

datatype invocation =
    Call_Station_info StationImpl
  | Call_Region_details Region
  | Call_Region_names Region
  | Call_buyOrdersFor RegionMarket int
  | Call_sellOrdersFor RegionMarket int
  | Call_ordersFor RegionMarket int
  | Call_history RegionMarket int

fun invoke :: "invocation \<Rightarrow> json promise" where
  "invoke (Call_Station_info s) = StationImpl_info s"
| "invoke (Call_Region_details r) = Region_details r"
| "invoke (Call_Region_names r) = Region_names r"
| "invoke (Call_buyOrdersFor m t) = RegionMarket_buyOrdersFor m t"
| "invoke (Call_sellOrdersFor m t) = RegionMarket_sellOrdersFor m t"
| "invoke (Call_ordersFor m t) = RegionMarket_ordersFor m t"
| "invoke (Call_history m t) = RegionMarket_history m t"

fun agent_of :: "invocation \<Rightarrow> agent" where
  "agent_of (Call_Station_info s) = station_agent s"
| "agent_of (Call_Region_details r) = region_agent r"
| "agent_of (Call_Region_names r) = region_agent r"
| "agent_of (Call_buyOrdersFor m t) = market_agent m"
| "agent_of (Call_sellOrdersFor m t) = market_agent m"
| "agent_of (Call_ordersFor m t) = market_agent m"
| "agent_of (Call_history m t) = market_agent m"

fun request_of :: "invocation \<Rightarrow> request" where
  "request_of (Call_Station_info s) =
     Request get_universe_stations_station_id
       (JObj [(''path'', JObj [(''station_id'', JNum (station_id s))])])"
| "request_of (Call_Region_details r) =
     Request get_universe_regions_region_id
       (JObj [(''path'', JObj [(''region_id'', JNum (region_id r))])])"
| "request_of (Call_Region_names r) =
     Request get_universe_regions_region_id
       (JObj [(''path'', JObj [(''region_id'', JNum (region_id r))])])"
| "request_of (Call_buyOrdersFor m t) =
     Request get_markets_region_id_orders
       (JObj [(''path'', JObj [(''region_id'', JNum (market_id m))]),
              (''query'', JObj [(''type_id'', JNum t), (''order_type'', JStr ''buy'')])])"
| "request_of (Call_sellOrdersFor m t) =
     Request get_markets_region_id_orders
       (JObj [(''path'', JObj [(''region_id'', JNum (market_id m))]),
              (''query'', JObj [(''type_id'', JNum t), (''order_type'', JStr ''sell'')])])"
| "request_of (Call_ordersFor m t) =
     Request get_markets_region_id_orders
       (JObj [(''path'', JObj [(''region_id'', JNum (market_id m))]),
              (''query'', JObj [(''type_id'', JNum t), (''order_type'', JStr ''all'')])])"
| "request_of (Call_history m t) =
     Request get_markets_region_id_history
       (JObj [(''path'', JObj [(''region_id'', JNum (market_id m))]),
              (''query'', JObj [(''type_id'', JNum t)])])"

subsection \<open>The requests of the paged order listing, and agents to test with\<close>

text \<open>The request that \<^verbatim>\<open>orders()\<close> of the market of region \<open>id'\<close> writes down for a page.\<close>

definition orders_request :: "int \<Rightarrow> nat \<Rightarrow> request" where
  "orders_request id' page =
     Request get_markets_region_id_orders
       (JObj [(''path'', JObj [(''region_id'', JNum id')]),
              (''query'', JObj [(''page'', JNum (int page)), (''order_type'', JStr ''all'')])])"

text \<open>The request that \<^verbatim>\<open>types()\<close> of the market of region \<open>id'\<close> writes down for a page.\<close>

definition types_request :: "int \<Rightarrow> nat \<Rightarrow> request" where
  "types_request id' page =
     Request get_markets_region_id_types
       (JObj [(''path'', JObj [(''region_id'', JNum id')]),
              (''query'', JObj [(''page'', JNum (int page))])])"

text \<open>
  The paged listings of these files, as data, so that a statement can speak of each of
  them: the call, the fetcher its streamer is made from, the request for a page, and the
  maximum page size it gives the streamer.
\<close>

datatype paged = Paged_orders | Paged_types


fun paged_fetcher :: "paged \<Rightarrow> RegionMarket \<Rightarrow> nat \<Rightarrow> json promise" where
  "paged_fetcher Paged_orders m = orders_fetcher m"
| "paged_fetcher Paged_types m = types_fetcher m"

fun paged_request :: "paged \<Rightarrow> int \<Rightarrow> nat \<Rightarrow> request" where
  "paged_request Paged_orders id' page = orders_request id' page"
| "paged_request Paged_types id' page = types_request id' page"

fun paged_size :: "paged \<Rightarrow> nat" where
  "paged_size Paged_orders = 10000"
| "paged_size Paged_types = 1000"


definition forge_agent :: agent where
  "forge_agent log r =
     Inr (JObj [(''region_id'', JNum 10000002), (''name'', JStr ''The Forge''),
                (''constellations'', JArr [JNum 20000017, JNum 20000018])])"

definition two_page_agent :: agent where
  "two_page_agent log r =
     (if r = orders_request 10000002 1 then Inr (JArr (replicate 10000 JNull))
      else Inr (JArr [JNum 7]))"

definition null_agent :: agent where
  "null_agent log r = Inr JNull"



text \<open>Stand-ins for \<^verbatim>\<open>getNames\<close> and \<^verbatim>\<open>getIteratedNames\<close> that report the category they
  are called with.\<close>

definition report_category :: "agent \<Rightarrow> NameCategory \<Rightarrow> int list \<Rightarrow> NameCategory promise" where
  "report_category ag category ids = resolve category"

definition report_iterated_category :: "agent \<Rightarrow> NameCategory \<Rightarrow> json promise \<Rightarrow> NameCategory" where
  "report_iterated_category ag category ids = category"






text \<open>The cache field that an accessor reads and fills.\<close>

definition cache :: "accessor \<Rightarrow> Region \<Rightarrow> nat option" where
  "cache a this =
     (case a of Constellations \<Rightarrow> cached_constellations this | Market \<Rightarrow> cached_market this)"

text \<open>A world with nothing in it, and a search that finds nothing.\<close>

definition empty_world :: world where
  "empty_world = \<lparr> requests = [], objects = [] \<rparr>"


section \<open>Properties\<close>

subsection \<open>How the operations run\<close>

lemma agent_request_run:
  "agent_request ag rt ps log = (ag log (Request rt ps), log @ [Request rt ps])"
  by (simp add: agent_request_def)

lemma then_value_run:
  "then_value p f log = (case p log of (Inl e, l) \<Rightarrow> (Inl e, l) | (Inr v, l) \<Rightarrow> (f v, l))"
  by (simp add: then_value_def)



text \<open>Each of the one-request methods asks its agent once, for the request of its body.\<close>

lemma invoke_run:
  "invoke c log =
     (case agent_of c log (request_of c) of
        Inl e \<Rightarrow> (Inl e, log @ [request_of c])
      | Inr v \<Rightarrow>
          ((case c of Call_Region_names r \<Rightarrow> get_prop ''name'' v | _ \<Rightarrow> Inr v),
           log @ [request_of c]))"
  by (cases c)
     (simp_all add: StationImpl_info_def Region_details_def Region_names_def getDetails_def
        RegionMarket_buyOrdersFor_def RegionMarket_sellOrdersFor_def RegionMarket_ordersFor_def
        RegionMarket_history_def agent_request_run then_value_run
        split: sum.splits)

subsection \<open>The page loop\<close>

text \<open>
  As long as the fetcher returns pages that are neither empty nor short, the loop goes on
  to the next page with all of them appended in the order of their fetching. The requests
  issued before each fetch are \<open>logs k\<close>.
\<close>

lemma fetch_pages_skip:
  assumes full: "\<And>k. k < n \<Longrightarrow>
             fetcher (page + k) (logs k) = (Inr (res k), logs (Suc k))
           \<and> page_items (property (res k) ''result'') = Some (pg k)
           \<and> pg k \<noteq> [] \<and> \<not> short_page mps (pg k)"
  shows "fetch_pages fetcher mps page acc (logs 0)
           = fetch_pages fetcher mps (page + n) (acc @ concat (map pg [0..<n])) (logs n)"
  using full
proof (induction n)
  case 0
  then show ?case by simp
next
  case (Suc n)
  have "fetch_pages fetcher mps page acc (logs 0)
          = fetch_pages fetcher mps (page + n) (acc @ concat (map pg [0..<n])) (logs n)"
    by (rule Suc.IH) (simp add: Suc.prems)
  also from Suc.prems [of n]
  have "\<dots> = fetch_pages fetcher mps (Suc (page + n)) ((acc @ concat (map pg [0..<n])) @ pg n)
                 (logs (Suc n))"
    by (subst fetch_pages.simps) simp
  finally show ?case by simp
qed

text \<open>
  The two paged listings: each fetch is one request, for the page asked for. After the
  full pages \<open>1\<close> to \<open>n - 1\<close> the listing ends with page \<open>n\<close>, resolved when
  that page is short and rejected when its request is.
\<close>

lemma paged_fetcher_run:
  "paged_fetcher op m page log =
     ((case market_agent m log (paged_request op (market_id m) page) of
         Inl e \<Rightarrow> Inl e
       | Inr v \<Rightarrow> Inr (JObj [(''result'', v), (''maxPages'', JUndefined)])),
      log @ [paged_request op (market_id m) page])"
  by (cases op)
     (simp_all add: orders_fetcher_def types_fetcher_def orders_request_def types_request_def
        agent_request_run then_value_run split: sum.splits)



lemma paged_size_pos: "0 < paged_size op"
  by (cases op) simp_all



lemma paged_skip:
  assumes full: "\<forall>k\<in>{1..<n}. ag (log @ map (paged_request op i) [1..<k]) (paged_request op i k)
                     = Inr (JArr (pages k)) \<and> paged_size op \<le> length (pages k)"
    and n: "1 \<le> n"
    and m: "market_agent m = ag" "market_id m = i"
  shows "makePageBasedStreamer (paged_fetcher op m) (Some (paged_size op)) log
           = fetch_pages (paged_fetcher op m) (Some (paged_size op)) n
               (concat (map pages [1..<n])) (log @ map (paged_request op i) [1..<n])"
proof -
  define logs where "logs k = log @ map (paged_request op i) [1..<Suc k]" for k
  define res where "res k = JObj [(''result'', JArr (pages (Suc k))), (''maxPages'', JUndefined)]" for k
  define pg where "pg k = pages (Suc k)" for k
  obtain n' where n': "n = Suc n'" using n by (cases n) auto
  have step: "logs (Suc k) = logs k @ [paged_request op i (Suc k)]" for k
    by (simp add: logs_def)
  have "fetch_pages (paged_fetcher op m) (Some (paged_size op)) 1 [] (logs 0)
          = fetch_pages (paged_fetcher op m) (Some (paged_size op)) (1 + n')
              ([] @ concat (map pg [0..<n'])) (logs n')"
  proof (rule fetch_pages_skip[where res = res])
    fix k assume k: "k < n'"
    then have "Suc k \<in> {1..<n}" by (simp add: n')
    with full have "ag (log @ map (paged_request op i) [1..<Suc k]) (paged_request op i (Suc k))
                      = Inr (JArr (pages (Suc k))) \<and> paged_size op \<le> length (pages (Suc k))"
      by (rule bspec)
    then have "ag (logs k) (paged_request op i (Suc k)) = Inr (JArr (pages (Suc k)))"
        and len: "paged_size op \<le> length (pages (Suc k))"
      by (simp_all only: logs_def)
    moreover from len paged_size_pos [of op] have "pages (Suc k) \<noteq> []" by auto
    ultimately show "paged_fetcher op m (1 + k) (logs k) = (Inr (res k), logs (Suc k))
          \<and> page_items (property (res k) ''result'') = Some (pg k)
          \<and> pg k \<noteq> [] \<and> \<not> short_page (Some (paged_size op)) (pg k)"
      by (simp add: paged_fetcher_run m step res_def pg_def short_page_def)
  qed
  moreover have "concat (map pg [0..<n']) = concat (map pages [1..<n])"
  proof -
    have "map pg [0..<n'] = map pages (map Suc [0..<n'])"
      by (simp add: pg_def)
    also have "\<dots> = map pages [1..<n]"
      by (simp only: map_Suc_upt n') simp
    finally show ?thesis by simp
  qed
  moreover have "logs 0 = log" by (simp add: logs_def)
  moreover have "logs n' = log @ map (paged_request op i) [1..<n]"
    by (simp add: logs_def n')
  ultimately show ?thesis
    by (simp add: makePageBasedStreamer_def n')
qed

lemma paged_resolves:
  assumes full: "\<forall>k\<in>{1..<n}. ag (log @ map (paged_request op i) [1..<k]) (paged_request op i k)
                     = Inr (JArr (pages k)) \<and> paged_size op \<le> length (pages k)"
    and last: "ag (log @ map (paged_request op i) [1..<n]) (paged_request op i n) = Inr (JArr (pages n))"
              "length (pages n) < paged_size op"
    and n: "1 \<le> n"
    and m: "market_agent m = ag" "market_id m = i"
  shows "makePageBasedStreamer (paged_fetcher op m) (Some (paged_size op)) log
           = Some (Inr (concat (map pages [1..<Suc n])), log @ map (paged_request op i) [1..<Suc n])"
proof -
  have "fetch_pages (paged_fetcher op m) (Some (paged_size op)) n
               (concat (map pages [1..<n])) (log @ map (paged_request op i) [1..<n])
          = Some (Inr (concat (map pages [1..<n]) @ pages n),
                  (log @ map (paged_request op i) [1..<n]) @ [paged_request op i n])"
    using last by (subst fetch_pages.simps) (simp add: paged_fetcher_run m short_page_def)
  with paged_skip [OF full n m] n show ?thesis by simp
qed


lemma paged_request_orders: "paged_request Paged_orders i = orders_request i"
  by (rule ext) simp

lemma paged_orders:
  assumes full: "\<forall>k\<in>{1..<n}. ag (log @ map (orders_request i) [1..<k]) (orders_request i k)
                     = Inr (JArr (pages k)) \<and> 10000 \<le> length (pages k)"
    and last: "ag (log @ map (orders_request i) [1..<n]) (orders_request i n) = Inr (JArr (pages n))"
              "length (pages n) < 10000"
    and n: "1 \<le> n"
    and m: "market_agent m = ag" "market_id m = i"
  shows "makePageBasedStreamer (orders_fetcher m) (Some 10000) log
           = Some (Inr (concat (map pages [1..<Suc n])), log @ map (orders_request i) [1..<Suc n])"
  using paged_resolves [where op = Paged_orders and ag = ag and log = log and i = i
                          and pages = pages and n = n and m = m]
        full last n m
  by (simp add: paged_request_orders)

lemma two_page_agent_pages:
  "two_page_agent l (orders_request 10000002 1) = Inr (JArr (replicate 10000 JNull))"
  "two_page_agent l (orders_request 10000002 (Suc 0)) = Inr (JArr (replicate 10000 JNull))"
  "two_page_agent l (orders_request 10000002 2) = Inr (JArr [JNum 7])"
  by (simp_all add: two_page_agent_def orders_request_def)

lemma two_page_agent_full:
  "\<forall>k\<in>{1..<2::nat}. two_page_agent ([] @ map (orders_request 10000002) [1..<k])
                       (orders_request 10000002 k)
                     = Inr (JArr (if k = 1 then replicate 10000 JNull else [JNum 7]))
                   \<and> 10000 \<le> length (if k = 1 then replicate 10000 JNull else [JNum 7])"
proof
  fix k :: nat assume "k \<in> {1..<2}"
  then have "k = 1" by simp
  then show "two_page_agent ([] @ map (orders_request 10000002) [1..<k])
               (orders_request 10000002 k)
             = Inr (JArr (if k = 1 then replicate 10000 JNull else [JNum 7]))
           \<and> 10000 \<le> length (if k = 1 then replicate 10000 JNull else [JNum 7])"
    by (simp add: two_page_agent_pages)
qed




lemma upt_1_3: "[Suc 0..<3] = [Suc 0, 2]"
  by (simp add: upt_rec)

subsection \<open>The cached accessors\<close>

lemma access_cached:
  "cache a this = Some ref \<Longrightarrow> access a this w = (ref, this, w)"
  by (cases a) (simp_all add: cache_def Region_constellations_def Region_market_def)

lemma access_fills_cache:
  "access a this w = (ref, this', w') \<Longrightarrow> cache a this' = Some ref"
  by (cases a)
     (auto simp: cache_def Region_constellations_def Region_market_def new_def
           split: option.splits)

lemma access_keeps_cache:
  "access b this w = (ref', this', w') \<Longrightarrow> cache a this = Some ref \<Longrightarrow> cache a this' = Some ref"
  by (cases a; cases b)
     (auto simp: cache_def Region_constellations_def Region_market_def new_def
           split: option.splits)

lemma access_requests:
  "access a this w = (ref, this', w') \<Longrightarrow> requests w' = requests w"
  by (cases a)
     (auto simp: Region_constellations_def Region_market_def new_def split: option.splits)

lemma access_objects:
  "access a this w = (ref, this', w') \<Longrightarrow> \<exists>ys. objects w' = objects w @ ys"
  by (cases a)
     (auto simp: Region_constellations_def Region_market_def new_def split: option.splits)

lemma access_fresh:
  "access a this w = (ref, this', w') \<Longrightarrow> cache a this = None \<Longrightarrow>
     ref = length (objects w) \<and> length (objects w') = Suc (length (objects w))"
  by (cases a)
     (auto simp: cache_def Region_constellations_def Region_market_def new_def
           split: option.splits)

lemma access_all_keeps_cache:
  "access_all as this w = (this', w') \<Longrightarrow> cache a this = Some ref \<Longrightarrow> cache a this' = Some ref"
proof (induction as arbitrary: this w)
  case Nil
  then show ?case by simp
next
  case (Cons b as)
  obtain r t v where step: "access b this w = (r, t, v)"
    by (cases "access b this w") auto
  with Cons.prems(1) have rest: "access_all as t v = (this', w')" by simp
  from access_keeps_cache [OF step Cons.prems(2)] have "cache a t = Some ref" .
  with rest show ?case by (rule Cons.IH)
qed

lemma access_all_requests:
  "access_all as this w = (this', w') \<Longrightarrow> requests w' = requests w"
proof (induction as arbitrary: this w)
  case Nil
  then show ?case by simp
next
  case (Cons b as)
  obtain r t v where step: "access b this w = (r, t, v)"
    by (cases "access b this w") auto
  with Cons.prems have rest: "access_all as t v = (this', w')" by simp
  from Cons.IH [OF rest] access_requests [OF step] show ?case by simp
qed

lemma access_all_objects:
  "access_all as this w = (this', w') \<Longrightarrow> \<exists>ys. objects w' = objects w @ ys"
proof (induction as arbitrary: this w)
  case Nil
  then show ?case by simp
next
  case (Cons b as)
  obtain r t v where step: "access b this w = (r, t, v)"
    by (cases "access b this w") auto
  with Cons.prems have rest: "access_all as t v = (this', w')" by simp
  from Cons.IH [OF rest] access_objects [OF step] show ?case by auto
qed

subsection \<open>The claims\<close>

text \<open>
  C1: the functor that \<^verbatim>\<open>makeRegions\<close> returns dispatches on the shape of its argument.
  With no argument it builds an \<^verbatim>\<open>IteratedRegions\<close>; with a number, a \<^verbatim>\<open>Region\<close> for
  exactly that id; with an array or a set, a \<^verbatim>\<open>MappedRegions\<close> over that very object;
  with a string, a \<^verbatim>\<open>MappedRegions\<close> whose ids come from the region search for the query
  (\<^verbatim>\<open>strict\<close> being \<^verbatim>\<open>false\<close> when it is not given).
\<close>

theorem makeRegions_dispatch:
  "makeRegions mds ag Arg_undefined strict = new_IteratedRegions ag
   \<and> makeRegions mds ag (Arg_number n) strict = new_Region ag n
   \<and> region_id (Region_new ag n) = n
   \<and> makeRegions mds ag (Arg_object a) strict = new_MappedRegions ag (Ids_object a)
   \<and> makeRegions mds ag (Arg_string q) (Some b) =
       new_MappedRegions ag (Ids_provider (mds ag SearchCategory_REGION q b))
   \<and> makeRegions mds ag (Arg_string q) None =
       new_MappedRegions ag (Ids_provider (mds ag SearchCategory_REGION q False))"
  by (simp add: makeRegions_def Region_new_def)



text \<open>
  C3: \<^verbatim>\<open>MappedRegions.names\<close> is documented as \<^verbatim>\<open>post_universe_names [region]\<close>, and
  \<^verbatim>\<open>IteratedRegions.names\<close> does ask for the region category; the body of
  \<^verbatim>\<open>MappedRegions.names\<close> asks \<^verbatim>\<open>getNames\<close> for the constellation category. Evaluated
  for the mapped ids \<^verbatim>\<open>[10000002]\<close>.
\<close>

theorem MappedRegions_names_category:
  "fst (MappedRegions_names report_category
          \<lparr> mapped_agent = null_agent, mapped_ids = resolve [10000002] \<rparr> [])
     = Inr NameCategory_CONSTELLATION
   \<and> IteratedRegions_names report_iterated_category null_agent = NameCategory_REGION
   \<and> NameCategory_CONSTELLATION \<noteq> NameCategory_REGION"
  by (simp add: MappedRegions_names_def IteratedRegions_names_def arrayIDs_def
        then_promise_def resolve_def report_category_def report_iterated_category_def)

text \<open>
  C4, as stated, fails: not every call of a wrapper method issues exactly one request.
  \<^verbatim>\<open>Station.id\<close> resolves without any request, and \<^verbatim>\<open>RegionMarket.orders\<close> against an
  agent with a full page of orders and one more order issues two.
\<close>

theorem not_every_call_is_one_request:
  "length (snd (StationImpl_id \<lparr> station_agent = null_agent, station_id = 60003760 \<rparr> [])) = 0
   \<and> map_option (length \<circ> snd)
       (fst (RegionMarket_orders (RegionMarket_new two_page_agent 10000002)) []) = Some 2"
proof -
  let ?pages = "\<lambda>k::nat. if k = 1 then replicate 10000 JNull else [JNum 7]"
  have last: "two_page_agent ([] @ map (orders_request 10000002) [1..<2])
                 (orders_request 10000002 2) = Inr (JArr (?pages 2))"
    by (simp add: two_page_agent_pages)
  have short: "length (?pages 2) < 10000" by simp
  have "makePageBasedStreamer (orders_fetcher (RegionMarket_new two_page_agent 10000002))
          (Some 10000) []
        = Some (Inr (concat (map ?pages [1..<Suc 2])),
                [] @ map (orders_request 10000002) [1..<Suc 2])"
    by (rule paged_orders [OF two_page_agent_full last short])
       (simp_all add: RegionMarket_new_def)
  then show ?thesis
    by (simp add: RegionMarket_orders_def RegionMarket_new_def Let_def StationImpl_id_def
          resolve_def upt_1_3)
qed

text \<open>
  C4, amended: a call of a method whose body is one \<^verbatim>\<open>agent.request\<close> (\<^verbatim>\<open>Station.info\<close>,
  \<^verbatim>\<open>Region.details\<close>, \<^verbatim>\<open>Region.names\<close>, and \<^verbatim>\<open>buyOrdersFor\<close>, \<^verbatim>\<open>sellOrdersFor\<close>,
  \<^verbatim>\<open>ordersFor\<close> and \<^verbatim>\<open>history\<close> of the market) issues exactly one request, the one its
  body writes down; \<^verbatim>\<open>Station.id\<close> issues none; and \<^verbatim>\<open>RegionMarket.orders\<close> issues one
  request for each page it fetches, the pages \<open>1\<close> to \<open>n\<close> when page \<open>n\<close> is the
  first that is not full.
\<close>

theorem requests_per_call:
  assumes "1 \<le> n"
    and "\<forall>k\<in>{1..<n}. ag (log @ map (orders_request i) [1..<k]) (orders_request i k)
                     = Inr (JArr (pages k)) \<and> 10000 \<le> length (pages k)"
    and "ag (log @ map (orders_request i) [1..<n]) (orders_request i n) = Inr (JArr (pages n))"
    and "length (pages n) < 10000"
  shows "snd (invoke c log) = log @ [request_of c]
       \<and> snd (StationImpl_id s log) = log
       \<and> map_option snd (fst (RegionMarket_orders (RegionMarket_new ag i)) log)
           = Some (log @ map (orders_request i) [1..<Suc n])"
proof -
  have "makePageBasedStreamer (orders_fetcher (RegionMarket_new ag i)) (Some 10000) log
           = Some (Inr (concat (map pages [1..<Suc n])), log @ map (orders_request i) [1..<Suc n])"
    using assms by (intro paged_orders) (simp_all add: RegionMarket_new_def)
  then have "map_option snd (fst (RegionMarket_orders (RegionMarket_new ag i)) log)
           = Some (log @ map (orders_request i) [1..<Suc n])"
    by (simp add: RegionMarket_orders_def RegionMarket_new_def Let_def)
  then show ?thesis
    by (simp add: invoke_run StationImpl_id_def resolve_def split: sum.splits)
qed

theorem requests_per_call_witness:
  "(1::nat) \<le> 2
   \<and> two_page_agent [] (orders_request 10000002 1) = Inr (JArr (replicate 10000 JNull))
   \<and> 10000 \<le> length (replicate 10000 JNull)
   \<and> two_page_agent [orders_request 10000002 1] (orders_request 10000002 2) = Inr (JArr [JNum 7])
   \<and> length [JNum 7] < 10000
   \<and> snd (invoke (Call_history (RegionMarket_new two_page_agent 10000002) 34) [])
       = [Request get_markets_region_id_history
            (JObj [(''path'', JObj [(''region_id'', JNum 10000002)]),
                   (''query'', JObj [(''type_id'', JNum 34)])])]
   \<and> map_option snd (fst (RegionMarket_orders (RegionMarket_new two_page_agent 10000002)) [])
       = Some [orders_request 10000002 1, orders_request 10000002 2]"
proof -
  let ?pages = "\<lambda>k::nat. if k = 1 then replicate 10000 JNull else [JNum 7]"
  have last: "two_page_agent ([] @ map (orders_request 10000002) [1..<2])
                 (orders_request 10000002 2) = Inr (JArr (?pages 2))"
    by (simp add: two_page_agent_pages)
  have short: "length (?pages 2) < 10000" by simp
  from requests_per_call
         [of 2 two_page_agent "[]" 10000002 ?pages
             "Call_history (RegionMarket_new two_page_agent 10000002) 34",
          OF _ two_page_agent_full last short]
  have "snd (invoke (Call_history (RegionMarket_new two_page_agent 10000002) 34) [])
       = [Request get_markets_region_id_history
            (JObj [(''path'', JObj [(''region_id'', JNum 10000002)]),
                   (''query'', JObj [(''type_id'', JNum 34)])])]
   \<and> map_option snd (fst (RegionMarket_orders (RegionMarket_new two_page_agent 10000002)) [])
       = Some [orders_request 10000002 1, orders_request 10000002 2]"
    by (simp add: upt_1_3 RegionMarket_new_def)
  then show ?thesis by (simp add: two_page_agent_pages)
qed





text \<open>
  C6: for every station id, the wrapper that \<^verbatim>\<open>makeStations(agent)(id)\<close> creates builds
  the expected request parameters. \<^verbatim>\<open>info()\<close> issues exactly the request
  \<^verbatim>\<open>agent.request('get_universe_stations_station_id', { path: { station_id: id } })\<close>
  and settles as the agent does; \<^verbatim>\<open>names(ids)\<close> resolves the ids through \<^verbatim>\<open>getNames\<close>
  with the station name category.
\<close>

theorem makeStations_request_parameters:
  "StationImpl_info (stations_call (makeStations mds gn ag) id') log =
     (ag log (Request get_universe_stations_station_id
                (JObj [(''path'', JObj [(''station_id'', JNum id')])])),
      log @ [Request get_universe_stations_station_id
               (JObj [(''path'', JObj [(''station_id'', JNum id')])])])
   \<and> stations_names (makeStations mds gn ag) ids = gn ag NameCategory_STATION ids"
  by (simp add: makeStations_def StationImpl_info_def agent_request_run)

text \<open>
  C7: fetching details passes the agent's answer through. \<^verbatim>\<open>Station.info\<close> and
  \<^verbatim>\<open>Region.details\<close> settle exactly as the agent settles the request for the id:
  the same value when it resolves (and the same error when it rejects), with nothing
  transformed, filtered or added.
\<close>

theorem details_pass_through:
  "fst (StationImpl_info s log) =
     station_agent s log (Request get_universe_stations_station_id
                            (JObj [(''path'', JObj [(''station_id'', JNum (station_id s))])]))
   \<and> fst (Region_details r log) =
     region_agent r log (Request get_universe_regions_region_id
                           (JObj [(''path'', JObj [(''region_id'', JNum (region_id r))])]))"
  by (simp add: StationImpl_info_def Region_details_def getDetails_def agent_request_run)

text \<open>
  C9: for every region, \<^verbatim>\<open>names()\<close> resolves to the \<^verbatim>\<open>name\<close> property of the response
  that \<^verbatim>\<open>details()\<close> resolves to, having issued the same request.
\<close>

theorem Region_names_is_name_of_details:
  "Region_details r log = (Inr v, log') \<Longrightarrow> v \<noteq> JUndefined \<Longrightarrow> v \<noteq> JNull \<Longrightarrow>
     Region_names r log = (Inr (property v ''name''), log')"
  by (cases v) (simp_all add: Region_names_def then_value_run)

theorem Region_names_is_name_of_details_witness:
  "Region_details (Region_new forge_agent 10000002) []
     = (Inr (JObj [(''region_id'', JNum 10000002), (''name'', JStr ''The Forge''),
                   (''constellations'', JArr [JNum 20000017, JNum 20000018])]),
        [Request get_universe_regions_region_id
           (JObj [(''path'', JObj [(''region_id'', JNum 10000002)])])])
   \<and> Region_names (Region_new forge_agent 10000002) []
     = (Inr (JStr ''The Forge''),
        [Request get_universe_regions_region_id
           (JObj [(''path'', JObj [(''region_id'', JNum 10000002)])])])"
proof -
  have d: "Region_details (Region_new forge_agent 10000002) []
     = (Inr (JObj [(''region_id'', JNum 10000002), (''name'', JStr ''The Forge''),
                   (''constellations'', JArr [JNum 20000017, JNum 20000018])]),
        [Request get_universe_regions_region_id
           (JObj [(''path'', JObj [(''region_id'', JNum 10000002)])])])"
    by (simp add: Region_details_def Region_new_def getDetails_def agent_request_run
          forge_agent_def)
  from Region_names_is_name_of_details [OF d] d show ?thesis by simp
qed

text \<open>
  C10: the accessors \<^verbatim>\<open>constellations\<close> and \<^verbatim>\<open>market\<close> of a \<^verbatim>\<open>Region\<close> are idempotent.
  Once an access has returned an object, every access of the same kind after it,
  whatever accesses of either kind lie between, returns that identical object and changes
  nothing. No access issues a request. When nothing was cached, the object returned is
  one that did not exist before, and it stays in place.
\<close>

theorem Region_accessors_cached:
  assumes first: "access a this w = (ref, this1, w1)"
    and later: "access_all as this1 w1 = (this2, w2)"
  shows "access a this2 w2 = (ref, this2, w2)
       \<and> requests w1 = requests w \<and> requests w2 = requests w
       \<and> (cache a this = None \<longrightarrow>
            deref w ref = None \<and> deref w1 ref \<noteq> None \<and> deref w2 ref = deref w1 ref)"
proof -
  from access_fills_cache [OF first] have "cache a this1 = Some ref" .
  with later have "cache a this2 = Some ref" by (rule access_all_keeps_cache)
  then have again: "access a this2 w2 = (ref, this2, w2)" by (rule access_cached)
  have r1: "requests w1 = requests w" using first by (rule access_requests)
  have r2: "requests w2 = requests w" using access_all_requests [OF later] r1 by simp
  have fresh: "deref w ref = None \<and> deref w1 ref \<noteq> None \<and> deref w2 ref = deref w1 ref"
    if none: "cache a this = None"
  proof -
    from access_fresh [OF first none]
    have ref: "ref = length (objects w)" and len: "length (objects w1) = Suc (length (objects w))"
      by simp_all
    from access_all_objects [OF later] obtain ys where "objects w2 = objects w1 @ ys" ..
    with ref len show ?thesis
      by (simp add: deref_def nth_append)
  qed
  from again r1 r2 fresh show ?thesis by blast
qed

theorem Region_accessors_cached_witness:
  "cache Market (Region_new forge_agent 10000002) = None
   \<and> fst (access Market (Region_new forge_agent 10000002) empty_world) = 0
   \<and> fst (access Market
           (fst (access_all [Constellations, Market]
                  (fst (snd (access Market (Region_new forge_agent 10000002) empty_world)))
                  (snd (snd (access Market (Region_new forge_agent 10000002) empty_world)))))
           (snd (access_all [Constellations, Market]
                  (fst (snd (access Market (Region_new forge_agent 10000002) empty_world)))
                  (snd (snd (access Market (Region_new forge_agent 10000002) empty_world)))))) = 0
   \<and> requests (snd (access_all [Constellations, Market]
                  (fst (snd (access Market (Region_new forge_agent 10000002) empty_world)))
                  (snd (snd (access Market (Region_new forge_agent 10000002) empty_world))))) = []
   \<and> deref (snd (access_all [Constellations, Market]
                  (fst (snd (access Market (Region_new forge_agent 10000002) empty_world)))
                  (snd (snd (access Market (Region_new forge_agent 10000002) empty_world))))) 0
       = Some (RegionMarket_obj (RegionMarket_new forge_agent 10000002))"
proof -
  let ?r = "Region_new forge_agent 10000002"
  have none: "cache Market ?r = None" by (simp add: cache_def Region_new_def)
  obtain r1 w1 where first: "access Market ?r empty_world = (0, r1, w1)"
    and made: "deref w1 0 = Some (RegionMarket_obj (RegionMarket_new forge_agent 10000002))"
    by (simp add: Region_market_def Region_new_def new_def empty_world_def deref_def)
  obtain r2 w2 where later: "access_all [Constellations, Market] r1 w1 = (r2, w2)"
    by (cases "access_all [Constellations, Market] r1 w1") auto
  from Region_accessors_cached [OF first later] none first later made
  show ?thesis by (simp add: empty_world_def)
qed

end
